theory Spec2Isabelle
  imports Complex_Main
begin

section \<open>Values of the tensor runtime\<close>

text \<open>
  Tensor elements and Python floats. A finite value is an exact real (rounding and
  overflow of finite arithmetic are not modelled; neither is the sign of zero); the
  three special values are kept, since a floating-point division by zero in the tensor
  runtime does not raise: it yields an infinity or a NaN, which then propagates.
\<close>

datatype tfloat = Fin real | PInf | NInf | NaN

definition signed_inf :: "real \<Rightarrow> tfloat" where
  "signed_inf s = (if 0 < s then PInf else if s < 0 then NInf else NaN)"

fun fneg :: "tfloat \<Rightarrow> tfloat" where
  "fneg (Fin a) = Fin (- a)"
| "fneg PInf = NInf"
| "fneg NInf = PInf"
| "fneg NaN = NaN"

fun fadd :: "tfloat \<Rightarrow> tfloat \<Rightarrow> tfloat" where
  "fadd NaN _ = NaN"
| "fadd _ NaN = NaN"
| "fadd (Fin a) (Fin b) = Fin (a + b)"
| "fadd (Fin a) y = y"
| "fadd x (Fin b) = x"
| "fadd PInf PInf = PInf"
| "fadd NInf NInf = NInf"
| "fadd PInf NInf = NaN"
| "fadd NInf PInf = NaN"

definition fsub :: "tfloat \<Rightarrow> tfloat \<Rightarrow> tfloat" where
  "fsub x y = fadd x (fneg y)"

fun fmul :: "tfloat \<Rightarrow> tfloat \<Rightarrow> tfloat" where
  "fmul NaN _ = NaN"
| "fmul _ NaN = NaN"
| "fmul (Fin a) (Fin b) = Fin (a * b)"
| "fmul (Fin a) PInf = signed_inf a"
| "fmul (Fin a) NInf = signed_inf (- a)"
| "fmul PInf (Fin b) = signed_inf b"
| "fmul NInf (Fin b) = signed_inf (- b)"
| "fmul PInf PInf = PInf"
| "fmul NInf NInf = PInf"
| "fmul PInf NInf = NInf"
| "fmul NInf PInf = NInf"

text \<open>Division; a zero divisor is the positive zero (the only one the program produces).\<close>

fun fdiv :: "tfloat \<Rightarrow> tfloat \<Rightarrow> tfloat" where
  "fdiv NaN _ = NaN"
| "fdiv _ NaN = NaN"
| "fdiv (Fin a) (Fin b) = (if b = 0 then signed_inf a else Fin (a / b))"
| "fdiv (Fin a) _ = Fin 0"
| "fdiv PInf (Fin b) = (if b < 0 then NInf else PInf)"
| "fdiv NInf (Fin b) = (if b < 0 then PInf else NInf)"
| "fdiv _ _ = NaN"

fun fexp :: "tfloat \<Rightarrow> tfloat" where
  "fexp (Fin a) = Fin (exp a)"
| "fexp PInf = PInf"
| "fexp NInf = Fin 0"
| "fexp NaN = NaN"

fun fsin :: "tfloat \<Rightarrow> tfloat" where
  "fsin (Fin a) = Fin (sin a)"
| "fsin _ = NaN"

fun fcos :: "tfloat \<Rightarrow> tfloat" where
  "fcos (Fin a) = Fin (cos a)"
| "fcos _ = NaN"

text \<open>What the program can raise, and what its collaborators can.\<close>

datatype error =
    KeyError string
  | ValueError
  | AssertionError
  | TypeError
  | IndexError
  | ZeroDivisionError
  | AttributeError
  | InvalidArgumentError
  | CollaboratorError string

text \<open>The Python values that travel as keyword and positional arguments.\<close>

datatype pyval = PyNone | PyBool bool | PyInt int | PyStr string

fun truthy :: "pyval \<Rightarrow> bool" where
  "truthy PyNone = False"
| "truthy (PyBool b) = b"
| "truthy (PyInt i) = (i \<noteq> 0)"
| "truthy (PyStr s) = (s \<noteq> [])"

type_synonym kwargs = "string \<rightharpoonup> pyval"

section \<open>Tensors\<close>

text \<open>A tensor is its shape and its elements in row-major order.\<close>

record tensor =
  shape :: "nat list"
  data :: "tfloat list"

definition numel :: "nat list \<Rightarrow> nat" where
  "numel s = prod_list s"

definition well_formed :: "tensor \<Rightarrow> bool" where
  "well_formed t = (length (data t) = numel (shape t))"

definition zeros :: "nat list \<Rightarrow> tensor" where
  "zeros s = \<lparr>shape = s, data = replicate (numel s) (Fin 0)\<rparr>"

definition scalar :: "tfloat \<Rightarrow> tensor" where
  "scalar v = \<lparr>shape = [], data = [v]\<rparr>"

subsection \<open>Broadcasting binary operations\<close>

text \<open>
  The runtime's elementwise operators align the two shapes on the right; two dimensions
  are compatible when they are equal or one of them is 1.
\<close>

definition pad_rank :: "nat \<Rightarrow> nat list \<Rightarrow> nat list" where
  "pad_rank n s = replicate (n - length s) 1 @ s"

fun broadcast_dims :: "nat list \<Rightarrow> nat list \<Rightarrow> error + nat list" where
  "broadcast_dims [] [] = Inr []"
| "broadcast_dims (d # ds) (e # es) =
     (case broadcast_dims ds es of
        Inl err \<Rightarrow> Inl err
      | Inr rs \<Rightarrow>
          if d = e then Inr (d # rs)
          else if d = 1 then Inr (e # rs)
          else if e = 1 then Inr (d # rs)
          else Inl InvalidArgumentError)"
| "broadcast_dims _ _ = Inl InvalidArgumentError"

definition broadcast_shape :: "nat list \<Rightarrow> nat list \<Rightarrow> error + nat list" where
  "broadcast_shape s1 s2 =
     (let n = max (length s1) (length s2)
      in broadcast_dims (pad_rank n s1) (pad_rank n s2))"

text \<open>
  The flat index, in an operand of shape \<open>ds\<close>, of the element that lands at flat
  index \<open>i\<close> of the result of shape \<open>rs\<close> (both of the same rank).
\<close>

fun bcast_index :: "nat list \<Rightarrow> nat list \<Rightarrow> nat \<Rightarrow> nat" where
  "bcast_index (d # ds) (r # rs) i =
     (if d = 1 then 0 else i div numel rs) * numel ds + bcast_index ds rs (i mod numel rs)"
| "bcast_index _ _ i = 0"

definition tf_binop ::
  "(tfloat \<Rightarrow> tfloat \<Rightarrow> tfloat) \<Rightarrow> tensor \<Rightarrow> tensor \<Rightarrow> error + tensor" where
  "tf_binop f a b =
     (case broadcast_shape (shape a) (shape b) of
        Inl err \<Rightarrow> Inl err
      | Inr s \<Rightarrow>
          Inr \<lparr>shape = s,
               data = map (\<lambda>i. f (data a ! bcast_index (pad_rank (length s) (shape a)) s i)
                                  (data b ! bcast_index (pad_rank (length s) (shape b)) s i))
                          [0..<numel s]\<rparr>)"

definition tf_add :: "tensor \<Rightarrow> tensor \<Rightarrow> error + tensor" where
  "tf_add = tf_binop fadd"

definition tf_multiply :: "tensor \<Rightarrow> tensor \<Rightarrow> error + tensor" where
  "tf_multiply = tf_binop fmul"

section \<open>PrePostProcessingWrapper\<close>

text \<open>
  The collaborators of the tensor runtime that the layers call and that this repository
  does not implement: dropout (random), and the layer normalisation that
  \<open>build\<close> creates.
\<close>

record tf_runtime =
  nn_dropout :: "tensor \<Rightarrow> real \<Rightarrow> error + tensor"
  LayerNormalization :: "tensor \<Rightarrow> error + tensor"

type_synonym layer_fn = "tensor \<Rightarrow> pyval list \<Rightarrow> kwargs \<Rightarrow> error + tensor"

record PrePostProcessingWrapper =
  ppw_dropout_rate :: real
  ppw_layer :: layer_fn
  ppw_norm_layer :: "(tensor \<Rightarrow> error + tensor) option"

definition ppw_init :: "layer_fn \<Rightarrow> real \<Rightarrow> PrePostProcessingWrapper" where
  "ppw_init layer dropout_rate =
     \<lparr>ppw_dropout_rate = dropout_rate, ppw_layer = layer, ppw_norm_layer = None\<rparr>"

definition ppw_build ::
  "tf_runtime \<Rightarrow> PrePostProcessingWrapper \<Rightarrow> nat list \<Rightarrow> PrePostProcessingWrapper" where
  "ppw_build rt w input_shape = w\<lparr>ppw_norm_layer := Some (LayerNormalization rt)\<rparr>"

text \<open>
  \<open>call(self, inputs, *args, **kwargs)\<close>. Reading \<open>kwargs["is_training"]\<close> comes first;
  calling the normalisation layer before \<open>build\<close> has set it calls \<open>None\<close>.
\<close>

definition ppw_call ::
  "tf_runtime \<Rightarrow> PrePostProcessingWrapper \<Rightarrow> tensor \<Rightarrow> pyval list \<Rightarrow> kwargs
     \<Rightarrow> error + tensor" where
  "ppw_call rt w inputs args kw =
     (case kw ''is_training'' of
        None \<Rightarrow> Inl (KeyError ''is_training'')
      | Some is_training \<Rightarrow>
          (case ppw_norm_layer w of
             None \<Rightarrow> Inl TypeError
           | Some norm_layer \<Rightarrow>
               (case norm_layer inputs of
                  Inl err \<Rightarrow> Inl err
                | Inr y \<Rightarrow>
                    (case ppw_layer w y args kw of
                       Inl err \<Rightarrow> Inl err
                     | Inr y \<Rightarrow>
                         (case (if truthy is_training
                                then nn_dropout rt y (ppw_dropout_rate w)
                                else Inr y) of
                            Inl err \<Rightarrow> Inl err
                          | Inr y \<Rightarrow> tf_add inputs y)))))"

text \<open>
  The sequence as the specification words it, for comparison with \<open>ppw_call\<close>:
  normalise, invoke the inner sub-layer with all the caller's arguments, drop out when
  training, add the original input.
\<close>

definition and_then :: "error + 'a \<Rightarrow> ('a \<Rightarrow> error + 'b) \<Rightarrow> error + 'b" where
  "and_then m f = (case m of Inl err \<Rightarrow> Inl err | Inr v \<Rightarrow> f v)"

definition prepost_sequence ::
  "(tensor \<Rightarrow> error + tensor) \<Rightarrow> layer_fn \<Rightarrow> (tensor \<Rightarrow> error + tensor) \<Rightarrow> bool
     \<Rightarrow> tensor \<Rightarrow> pyval list \<Rightarrow> kwargs \<Rightarrow> error + tensor" where
  "prepost_sequence norm_fn inner dropout is_training x args kw =
     and_then (norm_fn x) (\<lambda>n.
     and_then (inner n args kw) (\<lambda>y.
     and_then (if is_training then dropout y else Inr y) (\<lambda>y'.
     tf_add x y')))"

section \<open>Shape-changing operations of the tensor runtime\<close>

text \<open>
  \<open>tf.reshape\<close>: no size below \<open>-1\<close>, at most one \<open>-1\<close>, which is inferred so that
  the number of elements stays the same; without a \<open>-1\<close> the sizes must multiply to the
  number of elements. The elements keep their row-major order.
\<close>

definition tf_reshape :: "tensor \<Rightarrow> int list \<Rightarrow> error + tensor" where
  "tf_reshape t sizes =
     (if list_ex (\<lambda>d. d < - 1) sizes \<or> 1 < count_list sizes (- 1) then Inl InvalidArgumentError
      else if - 1 \<in> set sizes then
        (let known = prod_list (filter (\<lambda>d. d \<noteq> - 1) sizes);
             n = int (numel (shape t))
         in if known = 0 \<or> n mod known \<noteq> 0 then Inl InvalidArgumentError
            else Inr \<lparr>shape = map (\<lambda>d. nat (if d = - 1 then n div known else d)) sizes,
                      data = data t\<rparr>)
      else if prod_list sizes = int (numel (shape t))
        then Inr \<lparr>shape = map nat sizes, data = data t\<rparr>
      else Inl InvalidArgumentError)"

text \<open>
  \<open>tf.split(value, size_splits, axis=-1)\<close>: the sizes must add up to the last
  dimension (a single \<open>-1\<close> is inferred); piece \<open>j\<close> takes, from every row, the
  \<open>k\<^sub>j\<close> elements after those of the pieces before it.
\<close>

definition split_sizes :: "nat \<Rightarrow> int list \<Rightarrow> error + nat list" where
  "split_sizes whole sizes =
     (if list_ex (\<lambda>d. d < - 1) sizes \<or> 1 < count_list sizes (- 1) then Inl InvalidArgumentError
      else if - 1 \<in> set sizes then
        (let rest = int whole - sum_list (filter (\<lambda>d. d \<noteq> - 1) sizes)
         in if rest < 0 then Inl InvalidArgumentError
            else Inr (map (\<lambda>d. nat (if d = - 1 then rest else d)) sizes))
      else if sum_list sizes = int whole then Inr (map nat sizes)
      else Inl InvalidArgumentError)"

fun split_pieces :: "tensor \<Rightarrow> nat \<Rightarrow> nat list \<Rightarrow> tensor list" where
  "split_pieces t off [] = []"
| "split_pieces t off (k # ks) =
     \<lparr>shape = butlast (shape t) @ [k],
      data = concat (map (\<lambda>r. take k (drop (r * last (shape t) + off) (data t)))
                         [0..<numel (butlast (shape t))])\<rparr>
     # split_pieces t (off + k) ks"

definition tf_split :: "tensor \<Rightarrow> int list \<Rightarrow> error + tensor list" where
  "tf_split t sizes =
     (if shape t = [] then Inl InvalidArgumentError
      else case split_sizes (last (shape t)) sizes of
             Inl err \<Rightarrow> Inl err
           | Inr ks \<Rightarrow> Inr (split_pieces t 0 ks))"

definition fsum :: "tfloat list \<Rightarrow> tfloat" where
  "fsum vs = foldl fadd (Fin 0) vs"

text \<open>\<open>tf.einsum("abc,cd->abd", x, w)\<close> and \<open>tf.einsum("abcd,cde->abe", x, w)\<close>.\<close>

definition einsum_abc_cd :: "tensor \<Rightarrow> tensor \<Rightarrow> error + tensor" where
  "einsum_abc_cd x w =
     (case shape x of
        [a, b, c] \<Rightarrow>
          (case shape w of
             [c', d] \<Rightarrow>
               if c = c'
               then Inr \<lparr>shape = [a, b, d],
                         data = concat (map (\<lambda>r. map (\<lambda>l. fsum (map (\<lambda>k.
                                   fmul (data x ! (r * c + k)) (data w ! (k * d + l))) [0..<c]))
                                 [0..<d]) [0..<a * b])\<rparr>
               else Inl InvalidArgumentError
           | _ \<Rightarrow> Inl InvalidArgumentError)
      | _ \<Rightarrow> Inl InvalidArgumentError)"

definition einsum_abcd_cde :: "tensor \<Rightarrow> tensor \<Rightarrow> error + tensor" where
  "einsum_abcd_cde x w =
     (case shape x of
        [a, b, c, d] \<Rightarrow>
          (case shape w of
             [c', d', e] \<Rightarrow>
               if c = c' \<and> d = d'
               then Inr \<lparr>shape = [a, b, e],
                         data = concat (map (\<lambda>r. map (\<lambda>l. fsum (map (\<lambda>m.
                                   fmul (data x ! (r * (c * d) + m)) (data w ! (m * e + l)))
                                   [0..<c * d]))
                                 [0..<e]) [0..<a * b])\<rparr>
               else Inl InvalidArgumentError
           | _ \<Rightarrow> Inl InvalidArgumentError)
      | _ \<Rightarrow> Inl InvalidArgumentError)"

text \<open>
  \<open>tf.gather(params, indices)\<close> along the first axis; an index outside the table is
  an error. \<open>ishape\<close> is the shape of the index tensor.
\<close>

definition tf_gather :: "tensor \<Rightarrow> nat list \<Rightarrow> int list \<Rightarrow> error + tensor" where
  "tf_gather params ishape indices =
     (case shape params of
        [] \<Rightarrow> Inl InvalidArgumentError
      | n # rest \<Rightarrow>
          if list_ex (\<lambda>i. i < 0 \<or> int n \<le> i) indices then Inl InvalidArgumentError
          else Inr \<lparr>shape = ishape @ rest,
                    data = concat (map (\<lambda>i. take (numel rest)
                                               (drop (nat i * numel rest) (data params)))
                                       indices)\<rparr>)"

definition expand_dims0 :: "tensor \<Rightarrow> tensor" where
  "expand_dims0 t = t\<lparr>shape := 1 # shape t\<rparr>"

text \<open>
  Weights. An initializer gives, for a shape, the value at each flat index;
  \<open>add_weight\<close> refuses a negative dimension.
\<close>

type_synonym initializer = "nat list \<Rightarrow> nat \<Rightarrow> tfloat"

definition add_weight :: "int list \<Rightarrow> initializer \<Rightarrow> error + tensor" where
  "add_weight sizes init =
     (if list_ex (\<lambda>d. d < 0) sizes then Inl ValueError
      else Inr \<lparr>shape = map nat sizes,
                data = map (init (map nat sizes)) [0..<numel (map nat sizes)]\<rparr>)"

section \<open>Nested structures (\<open>tf.nest\<close>)\<close>

datatype 'a nest = Leaf 'a | Nest "'a nest list"

fun is_nested :: "'a nest \<Rightarrow> bool" where
  "is_nested (Leaf _) = False"
| "is_nested (Nest _) = True"

fun flatten :: "'a nest \<Rightarrow> 'a list" where
  "flatten (Leaf v) = [v]"
| "flatten (Nest ns) = concat (map flatten ns)"

text \<open>
  \<open>tf.nest.pack_sequence_as(structure, flat_sequence)\<close>: the flat sequence must have
  exactly as many elements as the structure has leaves.
\<close>

fun pack_from :: "'a nest \<Rightarrow> 'b list \<Rightarrow> ('b nest \<times> 'b list) option"
  and pack_all :: "'a nest list \<Rightarrow> 'b list \<Rightarrow> ('b nest list \<times> 'b list) option" where
  "pack_from (Leaf _) [] = None"
| "pack_from (Leaf _) (y # ys) = Some (Leaf y, ys)"
| "pack_from (Nest ns) ys =
     (case pack_all ns ys of None \<Rightarrow> None | Some (rs, ys') \<Rightarrow> Some (Nest rs, ys'))"
| "pack_all [] ys = Some ([], ys)"
| "pack_all (n # ns) ys =
     (case pack_from n ys of
        None \<Rightarrow> None
      | Some (r, ys') \<Rightarrow>
          (case pack_all ns ys' of None \<Rightarrow> None | Some (rs, ys'') \<Rightarrow> Some (r # rs, ys'')))"

definition pack_sequence_as :: "'a nest \<Rightarrow> 'b list \<Rightarrow> error + 'b nest" where
  "pack_sequence_as structure flat_sequence =
     (case pack_from structure flat_sequence of
        Some (r, []) \<Rightarrow> Inr r
      | _ \<Rightarrow> Inl ValueError)"

text \<open>Applying a function that can raise to every element, left to right.\<close>

fun map_structure :: "('a \<Rightarrow> error + 'b) \<Rightarrow> 'a list \<Rightarrow> error + 'b list" where
  "map_structure f [] = Inr []"
| "map_structure f (x # xs) =
     (case f x of
        Inl err \<Rightarrow> Inl err
      | Inr y \<Rightarrow> (case map_structure f xs of Inl err \<Rightarrow> Inl err | Inr ys \<Rightarrow> Inr (y # ys)))"

section \<open>MultiHeadDenseLayer\<close>

record MultiHeadDenseLayer =
  mhd_output_units :: "int nest"
  mhd_num_heads :: int
  mhd_kernel_initializer :: initializer
  mhd_bias_initializer :: initializer
  mhd_use_bias :: bool
  mhd_is_output_transform :: bool
  mhd_activation_fn :: "(tfloat \<Rightarrow> tfloat) option"
  mhd_flatten_output_units :: "int list"
  mhd_kernel :: "tensor option"
  mhd_bias :: "tensor option"

text \<open>
  \<open>__init__\<close>. The activation resolver \<open>get_activation\<close> lives outside this
  repository's sources and is a parameter: it can raise, or give no activation,
  or give a function that the layer applies to each element.
\<close>

definition mhd_init ::
  "('act \<Rightarrow> error + (tfloat \<Rightarrow> tfloat) option) \<Rightarrow> int nest \<Rightarrow> int \<Rightarrow> initializer
     \<Rightarrow> initializer \<Rightarrow> 'act \<Rightarrow> bool \<Rightarrow> bool \<Rightarrow> error + MultiHeadDenseLayer" where
  "mhd_init get_activation output_units num_heads kernel_initializer bias_initializer
       activation use_bias is_output_transform =
     (case get_activation activation of
        Inl err \<Rightarrow> Inl err
      | Inr activation_fn \<Rightarrow>
          if is_output_transform \<and> is_nested output_units then Inl AssertionError
          else Inr \<lparr>mhd_output_units = output_units,
                    mhd_num_heads = num_heads,
                    mhd_kernel_initializer = kernel_initializer,
                    mhd_bias_initializer = bias_initializer,
                    mhd_use_bias = use_bias,
                    mhd_is_output_transform = is_output_transform,
                    mhd_activation_fn = activation_fn,
                    mhd_flatten_output_units = flatten output_units,
                    mhd_kernel = None,
                    mhd_bias = None\<rparr>)"

text \<open>\<open>input_shape[-1]\<close> and \<open>input_shape[-2]\<close>, which raise on a shape too short.\<close>

definition dim_from_end :: "nat list \<Rightarrow> nat \<Rightarrow> error + nat" where
  "dim_from_end s k = (if length s < k \<or> k = 0 then Inl IndexError else Inr (s ! (length s - k)))"

definition compat_kernel_shape :: "MultiHeadDenseLayer \<Rightarrow> nat list \<Rightarrow> error + int list" where
  "compat_kernel_shape layer input_shape =
     (if mhd_is_output_transform layer then
        (case dim_from_end input_shape 1 of
           Inl err \<Rightarrow> Inl err
         | Inr d1 \<Rightarrow>
             (case dim_from_end input_shape 2 of
                Inl err \<Rightarrow> Inl err
              | Inr d2 \<Rightarrow>
                  (case mhd_output_units layer of
                     Leaf u \<Rightarrow> Inr [int d1 * int d2, u]
                   | Nest _ \<Rightarrow> Inl TypeError)))
      else
        (case dim_from_end input_shape 1 of
           Inl err \<Rightarrow> Inl err
         | Inr d1 \<Rightarrow> Inr [int d1, sum_list (mhd_flatten_output_units layer)]))"

text \<open>
  The property \<open>kernel_shape\<close>. In output-transform mode \<open>output_units\<close> is a
  scalar (\<open>__init__\<close> asserts it); a nested one would put a list where the runtime
  wants a dimension.
\<close>

definition kernel_shape :: "MultiHeadDenseLayer \<Rightarrow> error + int list" where
  "kernel_shape layer =
     (if mhd_is_output_transform layer then
        (case mhd_output_units layer of
           Leaf u \<Rightarrow> Inr [mhd_num_heads layer, - 1, u]
         | Nest _ \<Rightarrow> Inl TypeError)
      else Inr [- 1, sum_list (mhd_flatten_output_units layer)])"

definition bias_shape :: "MultiHeadDenseLayer \<Rightarrow> int list" where
  "bias_shape layer = [sum_list (mhd_flatten_output_units layer)]"

definition mhd_build :: "MultiHeadDenseLayer \<Rightarrow> nat list \<Rightarrow> error + MultiHeadDenseLayer" where
  "mhd_build layer input_shape =
     (case compat_kernel_shape layer input_shape of
        Inl err \<Rightarrow> Inl err
      | Inr ks \<Rightarrow>
          (case add_weight ks (mhd_kernel_initializer layer) of
             Inl err \<Rightarrow> Inl err
           | Inr kern \<Rightarrow>
               if mhd_use_bias layer then
                 (case add_weight (bias_shape layer) (mhd_bias_initializer layer) of
                    Inl err \<Rightarrow> Inl err
                  | Inr bias \<Rightarrow> Inr (layer\<lparr>mhd_kernel := Some kern, mhd_bias := Some bias\<rparr>))
               else Inr (layer\<lparr>mhd_kernel := Some kern, mhd_bias := None\<rparr>)))"

text \<open>
  The reshape into heads that \<open>call\<close> maps over the split pieces:
  \<open>tf.reshape(x, tf.concat([tf.shape(x)[:-1], [num_heads, num_units // num_heads]], axis=0))\<close>.
\<close>

definition split_heads :: "int \<Rightarrow> tensor \<times> int \<Rightarrow> error + tensor" where
  "split_heads num_heads p =
     (case p of (x, num_units) \<Rightarrow>
        if num_heads = 0 then Inl ZeroDivisionError
        else tf_reshape x (map int (butlast (shape x)) @ [num_heads, num_units div num_heads]))"

text \<open>
  Modelled from the spec: \<open>neurst.utils.activations.get_activation\<close> is not among the
  sources; the specification describes what it resolves to as a callable elementwise
  function, so an activation is a function on elements, applied to every element.
\<close>

definition apply_activation :: "(tfloat \<Rightarrow> tfloat) \<Rightarrow> tensor \<Rightarrow> tensor" where
  "apply_activation f t = t\<lparr>data := map f (data t)\<rparr>"

definition mhd_call :: "MultiHeadDenseLayer \<Rightarrow> tensor \<Rightarrow> error + tensor nest" where
  "mhd_call layer inputs =
     (case mhd_kernel layer of
        None \<Rightarrow> Inl AttributeError
      | Some stored \<Rightarrow>
     (case kernel_shape layer of
        Inl err \<Rightarrow> Inl err
      | Inr ks \<Rightarrow>
     (case tf_reshape stored ks of
        Inl err \<Rightarrow> Inl err
      | Inr kern \<Rightarrow>
     (case (if mhd_is_output_transform layer then einsum_abcd_cde inputs kern
            else einsum_abc_cd inputs kern) of
        Inl err \<Rightarrow> Inl err
      | Inr output \<Rightarrow>
     (case (if mhd_use_bias layer
            then (case mhd_bias layer of
                    None \<Rightarrow> Inl TypeError
                  | Some bias \<Rightarrow> tf_add output bias)
            else Inr output) of
        Inl err \<Rightarrow> Inl err
      | Inr output \<Rightarrow>
     (case (if \<not> mhd_is_output_transform layer
            then (case tf_split output (mhd_flatten_output_units layer) of
                    Inl err \<Rightarrow> Inl err
                  | Inr pieces \<Rightarrow>
                      if length pieces = length (mhd_flatten_output_units layer)
                      then map_structure (split_heads (mhd_num_heads layer))
                             (zip pieces (mhd_flatten_output_units layer))
                      else Inl ValueError)
            else Inr [output]) of
        Inl err \<Rightarrow> Inl err
      | Inr outputs \<Rightarrow>
          pack_sequence_as (mhd_output_units layer)
            (case mhd_activation_fn layer of
               None \<Rightarrow> outputs
             | Some f \<Rightarrow> map (apply_activation f) outputs)))))))"

text \<open>
  What the framework does when a layer that has no weights yet is applied: it builds the
  layer for the shape of the input, then calls it.
\<close>

definition mhd_first_call :: "MultiHeadDenseLayer \<Rightarrow> tensor \<Rightarrow> error + tensor nest" where
  "mhd_first_call layer inputs =
     (case mhd_build layer (shape inputs) of
        Inl err \<Rightarrow> Inl err
      | Inr built \<Rightarrow> mhd_call built inputs)"

section \<open>PositionEmbeddingWrapper\<close>

text \<open>
  \<open>pew_position_emb_table\<close> is the weight of shape \<open>[max_positions, embedding_dim]\<close>
  that \<open>build\<close> adds when the timing is \<open>"emb"\<close>, and is absent otherwise. The
  embedding layer is a collaborator: it takes the inputs and the keyword arguments of
  the call, and can raise; \<open>pew_embedding_dim\<close> is its attribute \<open>embedding_dim\<close>.
\<close>

record 'i PositionEmbeddingWrapper =
  pew_timing :: "string option"
  pew_embedding_layer :: "'i \<Rightarrow> kwargs \<Rightarrow> error + tensor"
  pew_embedding_dim :: int
  pew_max_positions :: int
  pew_position_emb_table :: "tensor option"

definition pew_init ::
  "string option \<Rightarrow> ('i \<Rightarrow> kwargs \<Rightarrow> error + tensor) \<Rightarrow> int \<Rightarrow> int
     \<Rightarrow> error + 'i PositionEmbeddingWrapper" where
  "pew_init timing embedding_layer embedding_dim max_positions =
     (if timing \<in> set [None, Some ''sinusoids'', Some ''emb'']
      then Inr \<lparr>pew_timing = timing,
                pew_embedding_layer = embedding_layer,
                pew_embedding_dim = embedding_dim,
                pew_max_positions = max_positions,
                pew_position_emb_table = None\<rparr>
      else Inl AssertionError)"

text \<open>
  \<open>build\<close>. The initializer of the table is the runtime's random normal one, a
  parameter here, with standard deviation \<open>embedding_dim ** -0.5\<close>: Python raises on
  a zero base.
\<close>

definition pew_build ::
  "(real \<Rightarrow> real \<Rightarrow> initializer) \<Rightarrow> 'i PositionEmbeddingWrapper \<Rightarrow> nat list
     \<Rightarrow> error + 'i PositionEmbeddingWrapper" where
  "pew_build random_normal_initializer w input_shape =
     (if pew_timing w = Some ''emb'' then
        (if pew_embedding_dim w = 0 then Inl ZeroDivisionError
         else case add_weight [pew_max_positions w, pew_embedding_dim w]
                     (random_normal_initializer 0
                        (real_of_int (pew_embedding_dim w) powr (- 1 / 2))) of
                Inl err \<Rightarrow> Inl err
              | Inr table \<Rightarrow> Inr (w\<lparr>pew_position_emb_table := Some table\<rparr>))
      else Inr w)"

text \<open>
  \<open>math.log(float(max_timescale) / float(min_timescale))\<close> on Python floats, which
  raises on a zero divisor and on a non-positive argument of the logarithm.
\<close>

definition py_log_ratio :: "real \<Rightarrow> real \<Rightarrow> error + real" where
  "py_log_ratio max_timescale min_timescale =
     (if min_timescale = 0 then Inl ZeroDivisionError
      else if max_timescale / min_timescale \<le> 0 then Inl ValueError
      else Inr (ln (max_timescale / min_timescale)))"

text \<open>
  The signal of \<open>add_sinusoids_timing_signal\<close>, from \<open>num_timescales\<close> to the padding:
  one row per position, the sines of the scaled times, then their cosines, then one zero
  when the number of channels is odd. The division that gives
  \<open>log_timescale_increment\<close> is a division of tensors.
\<close>

definition sinusoid_signal ::
  "tfloat list \<Rightarrow> nat \<Rightarrow> real \<Rightarrow> real \<Rightarrow> error + tfloat list list" where
  "sinusoid_signal position channels min_timescale max_timescale =
     (let num_timescales = channels div 2
      in case py_log_ratio max_timescale min_timescale of
           Inl err \<Rightarrow> Inl err
         | Inr lg \<Rightarrow>
             (let log_timescale_increment =
                    fdiv (Fin lg) (fsub (Fin (real num_timescales)) (Fin 1));
                  inv_timescales =
                    map (\<lambda>i. fmul (Fin min_timescale)
                                (fexp (fmul (Fin (real i)) (fneg log_timescale_increment))))
                        [0..<num_timescales];
                  scaled_time = map (\<lambda>p. map (\<lambda>w. fmul p w) inv_timescales) position;
                  signal = map (\<lambda>row. map fsin row @ map fcos row) scaled_time
              in Inr (map (\<lambda>row. row @ replicate (channels mod 2) (Fin 0)) signal)))"

definition positions :: "nat \<Rightarrow> tfloat list" where
  "positions n = map (\<lambda>p. Fin (real p)) [0..<n]"

definition add_sinusoids_timing_signal ::
  "tensor \<Rightarrow> int option \<Rightarrow> real \<Rightarrow> real \<Rightarrow> error + tensor" where
  "add_sinusoids_timing_signal x time min_timescale max_timescale =
     (if shape x = [] then Inl IndexError
      else
       (let channels = last (shape x);
            ndims = length (shape x)
        in case (if ndims = 3 then Inr (shape x ! 1, positions (shape x ! 1))
                 else if ndims = 2
                   then (case time of
                           None \<Rightarrow> Inl TypeError
                         | Some t \<Rightarrow> Inr (1, [Fin (real_of_int t)]))
                 else Inl ValueError) of
             Inl err \<Rightarrow> Inl err
           | Inr (len, position) \<Rightarrow>
               (case sinusoid_signal position channels min_timescale max_timescale of
                  Inl err \<Rightarrow> Inl err
                | Inr rows \<Rightarrow>
                    (case tf_reshape
                            \<lparr>shape = [len, 2 * (channels div 2) + channels mod 2],
                             data = concat rows\<rparr>
                            (if ndims = 3 then [1, int len, int channels]
                             else [1, int channels]) of
                       Inl err \<Rightarrow> Inl err
                     | Inr signal \<Rightarrow> tf_add x signal))))"

text \<open>
  \<open>call(self, inputs, time=None, **kwargs)\<close>. The result is \<open>None\<close> only on the path
  that falls off the end of the method, which a timing accepted by \<open>__init__\<close> never
  takes.
\<close>

definition pew_call ::
  "'i PositionEmbeddingWrapper \<Rightarrow> 'i \<Rightarrow> int option \<Rightarrow> kwargs \<Rightarrow> error + tensor option" where
  "pew_call w inputs time kw =
     (case pew_embedding_layer w inputs kw of
        Inl err \<Rightarrow> Inl err
      | Inr emb \<Rightarrow>
          (let mode = (case kw ''mode'' of None \<Rightarrow> PyStr ''embedding'' | Some m \<Rightarrow> m)
           in if pew_timing w = None \<or> mode \<noteq> PyStr ''embedding'' then Inr (Some emb)
              else if shape emb = [] then Inl IndexError
              else if int (last (shape emb)) \<noteq> pew_embedding_dim w then Inl AssertionError
              else
               (let x_ndims = length (shape emb)
                in if x_ndims = 2 \<and> time = None then Inl ValueError
                   else if pew_timing w = Some ''sinusoids'' then
                     (case tf_multiply emb
                             (scalar (Fin (sqrt (real_of_int (pew_embedding_dim w))))) of
                        Inl err \<Rightarrow> Inl err
                      | Inr scaled \<Rightarrow>
                          (case add_sinusoids_timing_signal scaled time 1 10000 of
                             Inl err \<Rightarrow> Inl err
                           | Inr r \<Rightarrow> Inr (Some r)))
                   else if pew_timing w = Some ''emb'' then
                     (case (if x_ndims = 2
                              then (case time of
                                      None \<Rightarrow> Inl ValueError
                                    | Some t \<Rightarrow> Inr ([], [t]))
                            else if x_ndims = 3
                              then Inr ([shape emb ! 1], map int [0..<shape emb ! 1])
                            else Inl ValueError) of
                        Inl err \<Rightarrow> Inl err
                      | Inr (ishape, position) \<Rightarrow>
                          (case pew_position_emb_table w of
                             None \<Rightarrow> Inl AttributeError
                           | Some table \<Rightarrow>
                               (case tf_gather table ishape position of
                                  Inl err \<Rightarrow> Inl err
                                | Inr position_emb \<Rightarrow>
                                    (case tf_add emb (expand_dims0 position_emb) of
                                       Inl err \<Rightarrow> Inl err
                                     | Inr r \<Rightarrow> Inr (Some r)))))
                   else Inr None)))"

section \<open>Concrete collaborators and inputs\<close>

text \<open>Small inputs on which the theorems below are instantiated.\<close>

definition demo_runtime :: tf_runtime where
  "demo_runtime =
     \<lparr>nn_dropout = (\<lambda>y rate. Inr (zeros (shape y))),
      LayerNormalization = (\<lambda>t. Inr (zeros (shape t)))\<rparr>"

definition failing_runtime :: tf_runtime where
  "failing_runtime =
     \<lparr>nn_dropout = (\<lambda>y rate. Inl ValueError),
      LayerNormalization = (\<lambda>t. Inl (CollaboratorError ''norm''))\<rparr>"

definition echo_layer :: layer_fn where
  "echo_layer y args kw = Inr y"

definition zero_layer :: layer_fn where
  "zero_layer y args kw = Inr (zeros (shape y))"

definition vec12 :: tensor where
  "vec12 = \<lparr>shape = [2], data = [Fin 1, Fin 2]\<rparr>"

definition no_activation :: "unit \<Rightarrow> error + (tfloat \<Rightarrow> tfloat) option" where
  "no_activation a = Inr None"

definition ones_init :: initializer where
  "ones_init s i = Fin 1"

definition zeros_init :: initializer where
  "zeros_init s i = Fin 0"

definition demo_embedding :: "bool \<Rightarrow> kwargs \<Rightarrow> error + tensor" where
  "demo_embedding single_step kw =
     (if single_step then Inr \<lparr>shape = [1, 1], data = [Fin 1]\<rparr>
      else Inr \<lparr>shape = [1, 2, 1], data = [Fin 1, Fin 2]\<rparr>)"

definition demo_wrapper :: "string option \<Rightarrow> bool PositionEmbeddingWrapper" where
  "demo_wrapper timing =
     \<lparr>pew_timing = timing,
      pew_embedding_layer = demo_embedding,
      pew_embedding_dim = 1,
      pew_max_positions = 2,
      pew_position_emb_table = Some \<lparr>shape = [2, 1], data = [Fin 10, Fin 20]\<rparr>\<rparr>"

definition demo_dense :: "int \<Rightarrow> int \<Rightarrow> bool \<Rightarrow> MultiHeadDenseLayer" where
  "demo_dense u h output_transform =
     \<lparr>mhd_output_units = Leaf u, mhd_num_heads = h,
      mhd_kernel_initializer = ones_init, mhd_bias_initializer = zeros_init,
      mhd_use_bias = True, mhd_is_output_transform = output_transform,
      mhd_activation_fn = None, mhd_flatten_output_units = [u],
      mhd_kernel = None, mhd_bias = None\<rparr>"

definition seq123 :: tensor where
  "seq123 = \<lparr>shape = [1, 2, 3], data = [Fin 0, Fin 1, Fin 2, Fin 3, Fin 4, Fin 5]\<rparr>"

definition empty_batch :: tensor where
  "empty_batch = \<lparr>shape = [0, 2, 3], data = []\<rparr>"

definition two_batches :: tensor where
  "two_batches =
     \<lparr>shape = [2, 1, 4],
      data = [Fin 0, Fin 0, Fin 0, Fin 0, Fin 10, Fin 10, Fin 10, Fin 10]\<rparr>"

section \<open>Facts about the tensor runtime\<close>

lemma numel_Nil: "numel [] = 1"
  by (simp add: numel_def)

lemma numel_Cons: "numel (d # ds) = d * numel ds"
  by (simp add: numel_def)

lemma pad_rank_same: "pad_rank (length s) s = s"
  by (simp add: pad_rank_def)

lemma broadcast_dims_same: "broadcast_dims s s = Inr s"
  by (induction s) auto

lemma broadcast_shape_same: "broadcast_shape s s = Inr s"
  by (simp add: broadcast_shape_def pad_rank_same broadcast_dims_same)

lemma bcast_index_same: "i < numel s \<Longrightarrow> bcast_index s s i = i"
proof (induction s arbitrary: i)
  case Nil
  then show ?case by (simp add: numel_Nil)
next
  case (Cons d ds)
  have pos: "0 < numel ds"
    using Cons.prems by (cases "numel ds = 0") (simp_all add: numel_Cons)
  then have rest: "bcast_index ds ds (i mod numel ds) = i mod numel ds"
    by (intro Cons.IH) simp
  show ?case
  proof (cases "d = 1")
    case True
    with Cons.prems have "i < numel ds" by (simp add: numel_Cons)
    with True rest show ?thesis by simp
  next
    case False
    with rest show ?thesis by simp
  qed
qed

lemma fadd_zero_right: "fadd v (Fin 0) = v"
  by (cases v) simp_all

lemma tf_add_zeros:
  assumes "well_formed x"
  shows "tf_add x (zeros (shape x)) = Inr x"
proof -
  let ?n = "numel (shape x)"
  have len: "length (data x) = ?n"
    using assms by (simp add: well_formed_def)
  have "map (\<lambda>i. fadd (data x ! bcast_index (shape x) (shape x) i)
                       (replicate ?n (Fin 0) ! bcast_index (shape x) (shape x) i)) [0..<?n]
        = map (\<lambda>i. data x ! i) [0..<?n]"
    by (rule map_cong) (simp_all add: bcast_index_same fadd_zero_right)
  also have "\<dots> = data x"
    unfolding len [symmetric] by (rule map_nth)
  finally show ?thesis
    by (simp add: tf_add_def tf_binop_def zeros_def broadcast_shape_same pad_rank_same)
qed

lemma well_formed_vec12: "well_formed vec12"
  by (simp add: well_formed_def vec12_def numel_def)

section \<open>Properties of PrePostProcessingWrapper\<close>

text \<open>
  Claim C2. Once \<open>build\<close> has created the normalisation layer, a call that supplies
  \<open>is_training\<close> computes exactly the sequence of the specification: the input is
  normalised, the inner sub-layer receives the normalised value together with every
  positional and keyword argument of the caller, dropout is applied to its output when
  \<open>is_training\<close> is true, and the result is the original input plus that output. An
  error of any step is the error of the call.
\<close>

theorem ppw_call_is_prepost_sequence:
  assumes "ppw_norm_layer w = Some norm_layer"
    and "kw ''is_training'' = Some is_training"
  shows "ppw_call rt w inputs args kw =
           prepost_sequence norm_layer (ppw_layer w)
             (\<lambda>y. nn_dropout rt y (ppw_dropout_rate w)) (truthy is_training) inputs args kw"
  using assms
  by (simp add: ppw_call_def prepost_sequence_def and_then_def split: sum.splits)

theorem ppw_call_is_prepost_sequence_witness:
  "ppw_norm_layer (ppw_build demo_runtime (ppw_init echo_layer 0.1) [2])
     = Some (LayerNormalization demo_runtime) \<and>
   [''is_training'' \<mapsto> PyBool False] ''is_training'' = Some (PyBool False) \<and>
   ppw_call demo_runtime (ppw_build demo_runtime (ppw_init echo_layer 0.1) [2]) vec12 []
      [''is_training'' \<mapsto> PyBool False]
     = Inr \<lparr>shape = [2], data = [Fin 1, Fin 2]\<rparr>"
proof -
  let ?w = "ppw_build demo_runtime (ppw_init echo_layer 0.1) [2]"
  let ?kw = "[''is_training'' \<mapsto> PyBool False]"
  have nl: "ppw_norm_layer ?w = Some (LayerNormalization demo_runtime)"
    by (simp add: ppw_build_def)
  have k: "?kw ''is_training'' = Some (PyBool False)"
    by simp
  have "ppw_call demo_runtime ?w vec12 [] ?kw =
          prepost_sequence (LayerNormalization demo_runtime) (ppw_layer ?w)
            (\<lambda>y. nn_dropout demo_runtime y (ppw_dropout_rate ?w)) (truthy (PyBool False))
            vec12 [] ?kw"
    by (rule ppw_call_is_prepost_sequence
        [where kw = "[''is_training'' \<mapsto> PyBool False]", OF nl k])
  also have "\<dots> = tf_add vec12 (zeros (shape vec12))"
    by (simp add: prepost_sequence_def and_then_def demo_runtime_def ppw_build_def
        ppw_init_def echo_layer_def)
  also have "\<dots> = Inr \<lparr>shape = [2], data = [Fin 1, Fin 2]\<rparr>"
    using tf_add_zeros [OF well_formed_vec12] by (simp add: vec12_def)
  finally show ?thesis using nl k by blast
qed

text \<open>
  Claim C8. Outside training, when the inner sub-layer returns the all-zero tensor of
  the input's shape, the call returns its input unchanged.
\<close>

theorem ppw_call_identity:
  assumes "well_formed inputs"
    and "ppw_norm_layer w = Some norm_layer"
    and "norm_layer inputs = Inr y"
    and "ppw_layer w y args kw = Inr (zeros (shape inputs))"
    and "kw ''is_training'' = Some is_training"
    and "\<not> truthy is_training"
  shows "ppw_call rt w inputs args kw = Inr inputs"
  using assms by (simp add: ppw_call_def tf_add_zeros)

theorem ppw_call_identity_witness:
  "well_formed vec12 \<and>
   ppw_norm_layer (ppw_build demo_runtime (ppw_init zero_layer 0.1) [2])
     = Some (LayerNormalization demo_runtime) \<and>
   LayerNormalization demo_runtime vec12 = Inr (zeros [2]) \<and>
   ppw_layer (ppw_build demo_runtime (ppw_init zero_layer 0.1) [2]) (zeros [2]) []
     [''is_training'' \<mapsto> PyBool False] = Inr (zeros (shape vec12)) \<and>
   [''is_training'' \<mapsto> PyBool False] ''is_training'' = Some (PyBool False) \<and>
   \<not> truthy (PyBool False) \<and>
   ppw_call demo_runtime (ppw_build demo_runtime (ppw_init zero_layer 0.1) [2]) vec12 []
      [''is_training'' \<mapsto> PyBool False] = Inr vec12"
proof -
  have nl: "ppw_norm_layer (ppw_build demo_runtime (ppw_init zero_layer 0.1) [2])
              = Some (LayerNormalization demo_runtime)"
    by (simp add: ppw_build_def)
  have n: "LayerNormalization demo_runtime vec12 = Inr (zeros [2])"
    by (simp add: demo_runtime_def vec12_def)
  have inner: "ppw_layer (ppw_build demo_runtime (ppw_init zero_layer 0.1) [2]) (zeros [2]) []
                 [''is_training'' \<mapsto> PyBool False] = Inr (zeros (shape vec12))"
    by (simp add: ppw_build_def ppw_init_def zero_layer_def zeros_def vec12_def)
  have k: "[''is_training'' \<mapsto> PyBool False] ''is_training'' = Some (PyBool False)"
    by simp
  have t: "\<not> truthy (PyBool False)"
    by simp
  show ?thesis
    by (intro conjI well_formed_vec12 nl n inner k t ppw_call_identity
        [where kw = "[''is_training'' \<mapsto> PyBool False]",
         OF well_formed_vec12 nl n inner k t])
qed

text \<open>
  Claim C9. A call that does not supply \<open>is_training\<close> among its keyword arguments
  fails with the missing-key error, whatever the normalisation layer, the inner layer
  and the runtime are (so before any of them runs) and whatever the other arguments.
\<close>

theorem ppw_call_requires_is_training:
  "kw ''is_training'' = None \<Longrightarrow>
     ppw_call rt w inputs args kw = Inl (KeyError ''is_training'')"
  by (simp add: ppw_call_def)

theorem ppw_call_requires_is_training_witness:
  "[''mode'' \<mapsto> PyStr ''embedding''] ''is_training'' = None \<and>
   ppw_call failing_runtime (ppw_build failing_runtime (ppw_init echo_layer 0.1) [2]) vec12
      [PyInt 3] [''mode'' \<mapsto> PyStr ''embedding''] = Inl (KeyError ''is_training'')"
  using ppw_call_requires_is_training
    [of "[''mode'' \<mapsto> PyStr ''embedding'']" failing_runtime
        "ppw_build failing_runtime (ppw_init echo_layer 0.1) [2]" vec12 "[PyInt 3]"]
  by simp

section \<open>Properties of PositionEmbeddingWrapper: control flow\<close>

lemma broadcast_dims_ones: "broadcast_dims s (replicate (length s) (Suc 0)) = Inr s"
  by (induction s) auto

lemma broadcast_shape_scalar: "broadcast_shape s [] = Inr s"
  by (simp add: broadcast_shape_def pad_rank_def broadcast_dims_ones)

lemma tf_multiply_scalar_shape:
  "\<exists>t. tf_multiply x (scalar v) = Inr t \<and> shape t = shape x"
  by (simp add: tf_multiply_def tf_binop_def scalar_def broadcast_shape_scalar)

lemma add_sinusoids_rank3_time:
  "length (shape x) = 3 \<Longrightarrow>
     add_sinusoids_timing_signal x time mn mx = add_sinusoids_timing_signal x None mn mx"
  by (simp add: add_sinusoids_timing_signal_def)

lemma demo_call_seq:
  "pew_call (demo_wrapper (Some ''emb'')) False None Map.empty
     = Inr (Some \<lparr>shape = [1, 2, 1], data = [Fin 11, Fin 22]\<rparr>)"
  by (simp add: pew_call_def demo_wrapper_def demo_embedding_def tf_gather_def numel_def
      expand_dims0_def tf_add_def tf_binop_def broadcast_shape_def pad_rank_def
      upt_conv_Cons)

text \<open>
  Claim C5. When the timing is none, or the keyword argument \<open>mode\<close> is given and is
  not \<open>"embedding"\<close>, the call is the call of the wrapped embedding layer: its output
  comes back unchanged, nothing positional is added, and the wrapper raises nothing of
  its own (not even for a single-step output without \<open>time\<close>).
\<close>

theorem pew_call_passthrough:
  assumes "pew_timing w = None \<or> (\<exists>m. kw ''mode'' = Some m \<and> m \<noteq> PyStr ''embedding'')"
  shows "pew_call w inputs time kw =
           (case pew_embedding_layer w inputs kw of
              Inl err \<Rightarrow> Inl err
            | Inr emb \<Rightarrow> Inr (Some emb))"
  using assms by (auto simp add: pew_call_def split: sum.splits)

theorem pew_call_passthrough_witness:
  "(pew_timing (demo_wrapper (Some ''sinusoids'')) = None \<or>
      (\<exists>m. [''mode'' \<mapsto> PyStr ''linear''] ''mode'' = Some m \<and> m \<noteq> PyStr ''embedding'')) \<and>
   pew_call (demo_wrapper (Some ''sinusoids'')) True None [''mode'' \<mapsto> PyStr ''linear'']
     = Inr (Some \<lparr>shape = [1, 1], data = [Fin 1]\<rparr>)"
proof -
  have h: "pew_timing (demo_wrapper (Some ''sinusoids'')) = None \<or>
      (\<exists>m. [''mode'' \<mapsto> PyStr ''linear''] ''mode'' = Some m \<and> m \<noteq> PyStr ''embedding'')"
    by simp
  have "pew_call (demo_wrapper (Some ''sinusoids'')) True None [''mode'' \<mapsto> PyStr ''linear'']
     = Inr (Some \<lparr>shape = [1, 1], data = [Fin 1]\<rparr>)"
    using pew_call_passthrough [where kw = "[''mode'' \<mapsto> PyStr ''linear'']", OF h,
        of True None]
    by (simp add: demo_wrapper_def demo_embedding_def)
  with h show ?thesis by blast
qed

text \<open>
  Claim C6. With a timing other than none and the embedding mode (\<open>mode\<close> absent or
  \<open>"embedding"\<close>): a call whose embedding output has two dimensions and whose \<open>time\<close>
  is \<open>None\<close> raises (the usage error, or the assertion on the embedding dimension when
  that fails first); a call whose embedding output has three dimensions gives the same
  result whatever \<open>time\<close> is, \<open>None\<close> included.
\<close>

theorem pew_call_time:
  assumes timing: "pew_timing w \<noteq> None"
    and mode: "kw ''mode'' = None \<or> kw ''mode'' = Some (PyStr ''embedding'')"
    and step: "pew_embedding_layer w step_inputs kw = Inr step_emb"
              "length (shape step_emb) = 2"
    and full: "pew_embedding_layer w seq_inputs kw = Inr seq_emb"
              "length (shape seq_emb) = 3"
  shows "pew_call w step_inputs None kw =
           Inl (if int (last (shape step_emb)) = pew_embedding_dim w
                then ValueError else AssertionError)
         \<and> pew_call w seq_inputs time kw = pew_call w seq_inputs None kw"
proof
  from step(2) have "shape step_emb \<noteq> []" by auto
  with timing mode step
  show "pew_call w step_inputs None kw =
           Inl (if int (last (shape step_emb)) = pew_embedding_dim w
                then ValueError else AssertionError)"
    by (auto simp add: pew_call_def)
next
  obtain scaled where scaled:
    "tf_multiply seq_emb (scalar (Fin (sqrt (real_of_int (pew_embedding_dim w))))) = Inr scaled"
    "shape scaled = shape seq_emb"
    using tf_multiply_scalar_shape by blast
  with full(2) have "length (shape scaled) = 3" by simp
  then have sig: "add_sinusoids_timing_signal scaled time 1 10000
                   = add_sinusoids_timing_signal scaled None 1 10000"
    by (rule add_sinusoids_rank3_time)
  from full show "pew_call w seq_inputs time kw = pew_call w seq_inputs None kw"
    by (simp add: pew_call_def Let_def scaled sig)
qed

theorem pew_call_time_witness:
  "pew_timing (demo_wrapper (Some ''emb'')) \<noteq> None \<and>
   (Map.empty ''mode'' = None \<or> Map.empty ''mode'' = Some (PyStr ''embedding'')) \<and>
   pew_embedding_layer (demo_wrapper (Some ''emb'')) True Map.empty
     = Inr \<lparr>shape = [1, 1], data = [Fin 1]\<rparr> \<and>
   length (shape \<lparr>shape = [1, 1], data = [Fin 1]\<rparr>) = 2 \<and>
   pew_embedding_layer (demo_wrapper (Some ''emb'')) False Map.empty
     = Inr \<lparr>shape = [1, 2, 1], data = [Fin 1, Fin 2]\<rparr> \<and>
   length (shape \<lparr>shape = [1, 2, 1], data = [Fin 1, Fin 2]\<rparr>) = 3 \<and>
   pew_call (demo_wrapper (Some ''emb'')) True None Map.empty = Inl ValueError \<and>
   pew_call (demo_wrapper (Some ''emb'')) False (Some 7) Map.empty
     = Inr (Some \<lparr>shape = [1, 2, 1], data = [Fin 11, Fin 22]\<rparr>)"
proof -
  let ?w = "demo_wrapper (Some ''emb'')"
  have timing: "pew_timing ?w \<noteq> None"
    by (simp add: demo_wrapper_def)
  have mode: "Map.empty ''mode'' = None \<or> Map.empty ''mode'' = Some (PyStr ''embedding'')"
    by simp
  have step: "pew_embedding_layer ?w True Map.empty = Inr \<lparr>shape = [1, 1], data = [Fin 1]\<rparr>"
    by (simp add: demo_wrapper_def demo_embedding_def)
  have step2: "length (shape \<lparr>shape = [1, 1], data = [Fin 1]\<rparr>) = 2"
    by simp
  have seq: "pew_embedding_layer ?w False Map.empty
               = Inr \<lparr>shape = [1, 2, 1], data = [Fin 1, Fin 2]\<rparr>"
    by (simp add: demo_wrapper_def demo_embedding_def)
  have seq3: "length (shape \<lparr>shape = [1, 2, 1], data = [Fin 1, Fin 2]\<rparr>) = 3"
    by simp
  note r = pew_call_time [where kw = Map.empty and time = "Some 7",
      OF timing mode step step2 seq seq3]
  from r have a: "pew_call ?w True None Map.empty = Inl ValueError"
    by (simp add: demo_wrapper_def)
  from r have b: "pew_call ?w False (Some 7) Map.empty
                    = Inr (Some \<lparr>shape = [1, 2, 1], data = [Fin 11, Fin 22]\<rparr>)"
    by (simp add: demo_call_seq)
  show ?thesis
    by (intro conjI timing mode step step2 seq seq3 a b)
qed

section \<open>Properties of MultiHeadDenseLayer\<close>

text \<open>
  Claim C4. With \<open>is_output_transform\<close> true and a nested \<open>output_units\<close>, construction
  returns no layer: it raises the assertion error (or the error of the activation
  resolver, which runs first), so no call can follow.
\<close>

theorem mhd_init_nested_output_transform:
  assumes "is_nested output_units"
  shows "mhd_init get_activation output_units num_heads kernel_initializer bias_initializer
           activation use_bias True =
         (case get_activation activation of
            Inl err \<Rightarrow> Inl err
          | Inr activation_fn \<Rightarrow> Inl AssertionError)"
  using assms by (simp add: mhd_init_def split: sum.splits)

theorem mhd_init_nested_output_transform_witness:
  "is_nested (Nest [Leaf 4, Leaf (2::int)]) \<and>
   mhd_init no_activation (Nest [Leaf 4, Leaf 2]) 2 ones_init zeros_init () True True
     = Inl AssertionError"
  using mhd_init_nested_output_transform
    [of "Nest [Leaf 4, Leaf 2]" no_activation 2 ones_init zeros_init "()" True]
  by (simp add: no_activation_def)


lemma demo_dense_init:
  "mhd_init no_activation (Leaf u) h ones_init zeros_init () True ot = Inr (demo_dense u h ot)"
  by (simp add: mhd_init_def no_activation_def demo_dense_def)

lemma mhd_init_Inr:
  assumes "mhd_init get_activation units h ki bi act ub ot = Inr layer"
  obtains f where "get_activation act = Inr f"
    and "layer = \<lparr>mhd_output_units = units, mhd_num_heads = h,
                   mhd_kernel_initializer = ki, mhd_bias_initializer = bi,
                   mhd_use_bias = ub, mhd_is_output_transform = ot,
                   mhd_activation_fn = f, mhd_flatten_output_units = flatten units,
                   mhd_kernel = None, mhd_bias = None\<rparr>"
  using assms by (auto simp add: mhd_init_def split: sum.splits if_splits)

lemma tf_add_bias_shape:
  assumes "shape x = [a, b, n]" and "shape y = [n]"
  shows "\<exists>t. tf_add x y = Inr t \<and> shape t = [a, b, n]"
  using assms
  by (auto simp add: tf_add_def tf_binop_def broadcast_shape_def pad_rank_def)

lemma kernel_reshape:
  assumes "0 < u" and "shape k = [c, nat u]"
  shows "tf_reshape k [- 1, u] = Inr \<lparr>shape = [c, nat u], data = data k\<rparr>"
proof -
  have n: "int (numel (shape k)) = int c * u"
    using assms by (simp add: numel_def)
  show ?thesis
    using assms(1) by (simp add: tf_reshape_def n Let_def)
qed

lemma einsum_abc_cd_shape:
  assumes "shape x = [a, b, c]" and "shape w = [c, d]"
  shows "\<exists>t. einsum_abc_cd x w = Inr t \<and> shape t = [a, b, d]"
  using assms by (simp add: einsum_abc_cd_def)

lemma tf_split_single:
  assumes "0 \<le> u" and "shape t = [a, b, nat u]"
  shows "\<exists>p. tf_split t [u] = Inr [p] \<and> shape p = [a, b, nat u]"
  using assms by (simp add: tf_split_def split_sizes_def)

lemma mhd_split_projection:
  assumes u: "0 < u"
    and x: "shape x = [a, b, c]"
    and layer: "layer = \<lparr>mhd_output_units = Leaf u, mhd_num_heads = h,
                   mhd_kernel_initializer = ki, mhd_bias_initializer = bi,
                   mhd_use_bias = ub, mhd_is_output_transform = False,
                   mhd_activation_fn = f, mhd_flatten_output_units = [u],
                   mhd_kernel = None, mhd_bias = None\<rparr>"
  shows "\<exists>p. shape p = [a, b, nat u] \<and>
           mhd_first_call layer x =
             (case split_heads h (p, u) of
                Inl err \<Rightarrow> Inl err
              | Inr t \<Rightarrow> Inr (Leaf (case f of None \<Rightarrow> t | Some g \<Rightarrow> apply_activation g t)))"
proof -
  define kern where "kern = \<lparr>shape = [c, nat u], data = map (ki [c, nat u]) [0..<numel [c, nat u]]\<rparr>"
  define bias where "bias = \<lparr>shape = [nat u], data = map (bi [nat u]) [0..<numel [nat u]]\<rparr>"
  define built where "built = layer\<lparr>mhd_kernel := Some kern,
                                    mhd_bias := (if ub then Some bias else None)\<rparr>"
  have build: "mhd_build layer (shape x) = Inr built"
    using u by (simp add: mhd_build_def compat_kernel_shape_def dim_from_end_def x layer
        add_weight_def bias_shape_def built_def kern_def bias_def)
  have ks: "kernel_shape built = Inr [- 1, u]"
    by (simp add: kernel_shape_def built_def layer)
  have kr: "tf_reshape kern [- 1, u] = Inr kern"
    using kernel_reshape [OF u, of kern c] by (simp add: kern_def)
  obtain out where out: "einsum_abc_cd x kern = Inr out" "shape out = [a, b, nat u]"
    using einsum_abc_cd_shape [OF x, of kern "nat u"] by (auto simp add: kern_def)
  obtain out' where out':
    "(if ub then tf_add out bias else Inr out) = Inr out'" "shape out' = [a, b, nat u]"
  proof (cases ub)
    case True
    with tf_add_bias_shape [OF out(2), of bias] that show ?thesis
      by (auto simp add: bias_def)
  next
    case False
    with out(2) that show ?thesis by simp
  qed
  obtain p where p: "tf_split out' [u] = Inr [p]" "shape p = [a, b, nat u]"
    using tf_split_single [OF _ out'(2)] u by force
  have "mhd_call built x =
          (case split_heads h (p, u) of
             Inl err \<Rightarrow> Inl err
           | Inr t \<Rightarrow> Inr (Leaf (case f of None \<Rightarrow> t | Some g \<Rightarrow> apply_activation g t)))"
    using out(1) out'(1) p(1) ks kr
    by (cases ub; cases f)
       (simp_all add: mhd_call_def built_def layer pack_sequence_as_def split: sum.splits)
  with build p(2) show ?thesis
    by (auto simp add: mhd_first_call_def)
qed

lemma split_heads_divisible:
  assumes "0 < h" and "0 < u" and "h dvd u" and "shape p = [a, b, nat u]"
  shows "split_heads h (p, u) = Inr \<lparr>shape = [a, b, nat h, nat (u div h)], data = data p\<rparr>"
proof -
  have k: "0 \<le> u div h"
    using assms(1,2) by (simp add: pos_imp_zdiv_nonneg_iff)
  have "h * (u div h) = u"
    using assms(3) by simp
  then have "int a * (int b * (h * (u div h))) = int a * (int b * u)"
    by simp
  then have prod: "int a * (int b * (h * (u div h))) = int (numel (shape p))"
    using assms(2,4) by (simp add: numel_def)
  show ?thesis
    using assms(1,4) k prod
    by (simp add: split_heads_def tf_reshape_def)
qed

lemma split_heads_indivisible:
  assumes "\<not> h dvd u" and "0 < u" and "shape p = [a, b, nat u]" and "0 < a" and "0 < b"
  shows "\<exists>err. split_heads h (p, u) = Inl err"
proof (cases "h \<le> 0")
  case True
  with assms(1) have "h = 0 \<or> h < - 1"
    by (cases "h = - 1") auto
  then show ?thesis
    by (auto simp add: split_heads_def tf_reshape_def)
next
  case False
  then have h: "0 < h" by simp
  with assms(2) have k: "0 \<le> u div h"
    by (simp add: pos_imp_zdiv_nonneg_iff)
  have "h * (u div h) \<noteq> u"
    using assms(1) by (metis dvd_triv_left)
  with assms(4,5) have "int a * (int b * (h * (u div h))) \<noteq> int a * (int b * u)"
    by simp
  then have prod: "int a * (int b * (h * (u div h))) \<noteq> int (numel (shape p))"
    using assms(2,3) by (simp add: numel_def)
  show ?thesis
    using h k prod assms(3)
    by (simp add: split_heads_def tf_reshape_def)
qed


text \<open>
  Claim C3. In split mode, for a scalar \<open>output_units\<close> that is positive and divisible
  by a positive \<open>num_heads\<close>, the first call on an input of shape
  \<open>[batch, length, hidden]\<close> returns one tensor of shape
  \<open>[batch, length, num_heads, output_units div num_heads]\<close>, and reshaping it merges the
  two last dimensions back into a tensor of shape \<open>[batch, length, output_units]\<close>.
\<close>

theorem mhd_split_shape:
  assumes init: "mhd_init get_activation (Leaf u) h ki bi act ub False = Inr layer"
    and h: "0 < h" and u: "0 < u" and dvd: "h dvd u"
    and x: "shape x = [a, b, c]"
  shows "\<exists>t r. mhd_first_call layer x = Inr (Leaf t) \<and>
               shape t = [a, b, nat h, nat (u div h)] \<and>
               tf_reshape t [int a, int b, u] = Inr r \<and>
               shape r = [a, b, nat u]"
proof -
  from init obtain f where
    layer: "layer = \<lparr>mhd_output_units = Leaf u, mhd_num_heads = h,
                   mhd_kernel_initializer = ki, mhd_bias_initializer = bi,
                   mhd_use_bias = ub, mhd_is_output_transform = False,
                   mhd_activation_fn = f, mhd_flatten_output_units = [u],
                   mhd_kernel = None, mhd_bias = None\<rparr>"
    by (rule mhd_init_Inr) simp
  from mhd_split_projection [OF u x layer] obtain p where
    p: "shape p = [a, b, nat u]"
    and call: "mhd_first_call layer x =
             (case split_heads h (p, u) of
                Inl err \<Rightarrow> Inl err
              | Inr t \<Rightarrow> Inr (Leaf (case f of None \<Rightarrow> t | Some g \<Rightarrow> apply_activation g t)))"
    by blast
  define t0 where "t0 = \<lparr>shape = [a, b, nat h, nat (u div h)], data = data p\<rparr>"
  define t where "t = (case f of None \<Rightarrow> t0 | Some g \<Rightarrow> apply_activation g t0)"
  have res: "mhd_first_call layer x = Inr (Leaf t)"
    by (cases f) (simp_all add: call split_heads_divisible [OF h u dvd p] t_def t0_def)
  have st: "shape t = [a, b, nat h, nat (u div h)]"
    by (cases f) (simp_all add: t_def t0_def apply_activation_def)
  have k: "0 \<le> u div h"
    using h u by (simp add: pos_imp_zdiv_nonneg_iff)
  have "h * (u div h) = u"
    using dvd by simp
  then have "int a * (int b * u) = int a * (int b * (h * (u div h)))"
    by simp
  also have "\<dots> = int (numel (shape t))"
    using h k by (simp add: st numel_def)
  finally have "tf_reshape t [int a, int b, u] = Inr \<lparr>shape = [a, b, nat u], data = data t\<rparr>"
    using u by (simp add: tf_reshape_def)
  with res st show ?thesis by simp
qed

theorem mhd_split_shape_witness:
  "mhd_init no_activation (Leaf 6) 2 ones_init zeros_init () True False
     = Inr (demo_dense 6 2 False) \<and>
   (0::int) < 2 \<and> (0::int) < 6 \<and> (2::int) dvd 6 \<and> shape seq123 = [1, 2, 3] \<and>
   (\<exists>t r. mhd_first_call (demo_dense 6 2 False) seq123 = Inr (Leaf t) \<and>
          shape t = [1, 2, 2, 3] \<and>
          tf_reshape t [1, 2, 6] = Inr r \<and>
          shape r = [1, 2, 6])"
proof -
  have init: "mhd_init no_activation (Leaf 6) 2 ones_init zeros_init () True False
                = Inr (demo_dense 6 2 False)"
    by (rule demo_dense_init)
  have h: "(0::int) < 2" and u: "(0::int) < 6" and d: "(2::int) dvd 6"
    by simp_all
  have x: "shape seq123 = [1, 2, 3]"
    by (simp add: seq123_def)
  from mhd_split_shape [OF init h u d x]
  have "\<exists>t r. mhd_first_call (demo_dense 6 2 False) seq123 = Inr (Leaf t) \<and>
          shape t = [1, 2, 2, 3] \<and>
          tf_reshape t [1, 2, 6] = Inr r \<and>
          shape r = [1, 2, 6]"
    by simp
  with init h u d x show ?thesis by blast
qed

text \<open>
  Claim C1, as the code has it. Construction never looks at divisibility: with a scalar
  \<open>output_units\<close> that \<open>num_heads\<close> does not divide, it succeeds in output-transform
  mode as it does in split mode (whenever the activation resolves). In split mode the
  first call on an input of shape \<open>[batch, length, hidden]\<close> with at least one batch
  element and one position then raises: the weights cannot be created when
  \<open>output_units\<close> is negative, and otherwise the reshape into heads does not preserve
  the number of elements.
\<close>

theorem mhd_indivisible_units:
  assumes act: "get_activation activation = Inr activation_fn"
    and ndvd: "\<not> h dvd u"
    and x: "shape x = [a, b, c]" and a: "0 < a" and b: "0 < b"
  shows "(\<exists>layer. mhd_init get_activation (Leaf u) h ki bi activation ub True = Inr layer) \<and>
         (\<exists>layer. mhd_init get_activation (Leaf u) h ki bi activation ub False = Inr layer \<and>
                  (\<exists>err. mhd_first_call layer x = Inl err))"
proof
  show "\<exists>layer. mhd_init get_activation (Leaf u) h ki bi activation ub True = Inr layer"
    by (simp add: mhd_init_def act)
next
  define layer where
    "layer = \<lparr>mhd_output_units = Leaf u, mhd_num_heads = h,
                   mhd_kernel_initializer = ki, mhd_bias_initializer = bi,
                   mhd_use_bias = ub, mhd_is_output_transform = False,
                   mhd_activation_fn = activation_fn, mhd_flatten_output_units = [u],
                   mhd_kernel = None, mhd_bias = None\<rparr>"
  have init: "mhd_init get_activation (Leaf u) h ki bi activation ub False = Inr layer"
    by (simp add: mhd_init_def act layer_def)
  from ndvd have "u \<noteq> 0" by auto
  then consider "u < 0" | "0 < u" by linarith
  then have "\<exists>err. mhd_first_call layer x = Inl err"
  proof cases
    case 1
    then show ?thesis
      by (simp add: mhd_first_call_def mhd_build_def compat_kernel_shape_def dim_from_end_def
          x layer_def add_weight_def)
  next
    case 2
    from mhd_split_projection [OF 2 x layer_def] obtain p where
      p: "shape p = [a, b, nat u]"
      and call: "mhd_first_call layer x =
             (case split_heads h (p, u) of
                Inl err \<Rightarrow> Inl err
              | Inr t \<Rightarrow> Inr (Leaf (case activation_fn of None \<Rightarrow> t
                                     | Some g \<Rightarrow> apply_activation g t)))"
      by blast
    from split_heads_indivisible [OF ndvd 2 p a b] call show ?thesis
      by auto
  qed
  with init
  show "\<exists>layer. mhd_init get_activation (Leaf u) h ki bi activation ub False = Inr layer \<and>
                  (\<exists>err. mhd_first_call layer x = Inl err)"
    by blast
qed

theorem mhd_indivisible_units_witness:
  "no_activation () = Inr None \<and> \<not> (2::int) dvd 7 \<and> shape seq123 = [1, 2, 3] \<and>
   (0::nat) < 1 \<and> (0::nat) < 2 \<and>
   (\<exists>layer. mhd_init no_activation (Leaf 7) 2 ones_init zeros_init () True True = Inr layer) \<and>
   (\<exists>layer. mhd_init no_activation (Leaf 7) 2 ones_init zeros_init () True False = Inr layer \<and>
            (\<exists>err. mhd_first_call layer seq123 = Inl err))"
proof -
  have act: "no_activation () = Inr None"
    by (simp add: no_activation_def)
  have nd: "\<not> (2::int) dvd 7"
    by simp
  have x: "shape seq123 = [1, 2, 3]"
    by (simp add: seq123_def)
  have a: "(0::nat) < 1" and b: "(0::nat) < 2"
    by simp_all
  from mhd_indivisible_units
         [where get_activation = no_activation and activation = "()" and ki = ones_init
            and bi = zeros_init and ub = True, OF act nd x a b]
       act nd x a b
  show ?thesis by blast
qed

text \<open>
  Against claim C1 as stated: with \<open>output_units = 7\<close> and \<open>num_heads = 2\<close>,
  construction in output-transform mode returns a layer; and the split-mode layer,
  called first on an empty batch, returns a tensor.
\<close>

theorem mhd_indivisible_units_counterexample:
  "\<not> (2::int) dvd 7 \<and>
   mhd_init no_activation (Leaf 7) 2 ones_init zeros_init () True True
     = Inr (demo_dense 7 2 True) \<and>
   mhd_init no_activation (Leaf 7) 2 ones_init zeros_init () True False
     = Inr (demo_dense 7 2 False) \<and>
   mhd_first_call (demo_dense 7 2 False) empty_batch
     = Inr (Leaf \<lparr>shape = [0, 2, 2, 3], data = []\<rparr>)"
proof -
  have "mhd_first_call (demo_dense 7 2 False) empty_batch
     = Inr (Leaf \<lparr>shape = [0, 2, 2, 3], data = []\<rparr>)"
    by (simp add: mhd_first_call_def mhd_build_def compat_kernel_shape_def dim_from_end_def
        demo_dense_def empty_batch_def add_weight_def bias_shape_def mhd_call_def
        kernel_shape_def tf_reshape_def numel_def einsum_abc_cd_def tf_add_def tf_binop_def
        broadcast_shape_def pad_rank_def tf_split_def split_sizes_def split_heads_def
        pack_sequence_as_def)
  then show ?thesis
    by (simp add: demo_dense_init)
qed

section \<open>The sinusoidal timing signal\<close>

lemma concat_nth_uniform:
  assumes "\<forall>r \<in> set rows. length r = c" and "j < length rows * c"
  shows "concat rows ! j = rows ! (j div c) ! (j mod c)"
  using assms
proof (induction rows arbitrary: j)
  case Nil
  then show ?case by simp
next
  case (Cons r rows)
  have len: "length r = c" using Cons.prems(1) by simp
  show ?case
  proof (cases "j < c")
    case True
    then show ?thesis by (simp add: nth_append len)
  next
    case False
    then have ge: "c \<le> j" by simp
    with Cons.prems(2) have c: "0 < c" by (cases c) auto
    from ge Cons.prems(2) have "j - c < length rows * c" by auto
    with Cons.prems(1) have "concat rows ! (j - c) = rows ! ((j - c) div c) ! ((j - c) mod c)"
      by (intro Cons.IH) auto
    moreover have "(j - c) mod c = j mod c"
      using ge by (simp add: le_mod_geq)
    moreover have "j div c = Suc ((j - c) div c)"
      using ge c by (simp add: le_div_geq)
    ultimately show ?thesis
      using False by (simp add: nth_append len)
  qed
qed

lemma sinusoid_signal_rows:
  assumes "sinusoid_signal position c mn mx = Inr rows"
  shows "length rows = length position \<and> (\<forall>r \<in> set rows. length r = c)"
proof -
  have "c div 2 + (c div 2 + c mod 2) = c" by presburger
  with assms show ?thesis
    by (auto simp add: sinusoid_signal_def Let_def split: sum.splits)
qed

lemma signal_reshape:
  "tf_reshape \<lparr>shape = [l, c], data = d\<rparr> [1, int l, int c]
     = Inr \<lparr>shape = [Suc 0, l, c], data = d\<rparr>"
  by (simp add: tf_reshape_def numel_def)

lemma tf_add_batch:
  assumes "shape x = [b, l, c]" and "shape s = [Suc 0, l, c]"
  shows "tf_add x s =
           Inr \<lparr>shape = [b, l, c],
                data = map (\<lambda>i. fadd (data x ! bcast_index [b, l, c] [b, l, c] i)
                                   (data s ! bcast_index [Suc 0, l, c] [b, l, c] i))
                           [0..<b * l * c]\<rparr>"
  using assms
  by (simp add: tf_add_def tf_binop_def broadcast_shape_def pad_rank_def numel_def
      mult.assoc del: bcast_index.simps)

lemma bcast_index_batch:
  assumes "i < b * l * c"
  shows "bcast_index [Suc 0, l, c] [b, l, c] i = i mod (l * c)"
proof -
  from assms have pos: "0 < l * c"
    by (cases "l * c = 0") auto
  have "bcast_index [l, c] [l, c] (i mod (l * c)) = i mod (l * c)"
    using pos by (intro bcast_index_same) (simp add: numel_def)
  then show ?thesis
    by (simp add: numel_def)
qed

lemma signal_index:
  assumes "0 < c"
  shows "(i::nat) mod (l * c) div c = i div c mod l" and "i mod (l * c) mod c = i mod c"
proof -
  have "i mod (c * l) = c * (i div c mod l) + i mod c"
    by (rule mod_mult2_eq)
  then have eq: "i mod (l * c) = c * (i div c mod l) + i mod c"
    by (simp add: mult.commute)
  show "i mod (l * c) div c = i div c mod l"
    using assms by (simp add: eq)
  show "i mod (l * c) mod c = i mod c"
    by (simp add: eq)
qed

text \<open>
  Claim C10. For an input of shape \<open>[batch, length, channels]\<close>,
  \<open>add_sinusoids_timing_signal\<close> returns the input plus a signal that is a function of
  the length, the number of channels and the two timescales only (it raises exactly when
  that function does): the element at flat index \<open>i\<close>, that is at position
  \<open>i div channels mod length\<close> and channel \<open>i mod channels\<close> of whichever batch element,
  receives the signal's value for that position and channel. Neither the values of the
  input nor the batch index nor \<open>time\<close> enter the signal.
\<close>

theorem add_sinusoids_same_signal_per_batch:
  assumes x: "shape x = [b, l, c]"
  shows "add_sinusoids_timing_signal x time mn mx =
           (case sinusoid_signal (positions l) c mn mx of
              Inl err \<Rightarrow> Inl err
            | Inr rows \<Rightarrow>
                Inr \<lparr>shape = [b, l, c],
                     data = map (\<lambda>i. fadd (data x ! i) (rows ! (i div c mod l) ! (i mod c)))
                                [0..<b * l * c]\<rparr>)"
proof (cases "sinusoid_signal (positions l) c mn mx")
  case (Inl err)
  then show ?thesis
    by (simp add: add_sinusoids_timing_signal_def x)
next
  case (Inr rows)
  from sinusoid_signal_rows [OF Inr]
  have rows: "length rows = l" "\<forall>r \<in> set rows. length r = c"
    by (simp_all add: positions_def)
  have n: "numel [b, l, c] = b * l * c"
    by (simp add: numel_def)
  have elem: "fadd (data x ! bcast_index [b, l, c] [b, l, c] i)
                   (concat rows ! bcast_index [Suc 0, l, c] [b, l, c] i)
              = fadd (data x ! i) (rows ! (i div c mod l) ! (i mod c))"
    if i: "i < b * l * c" for i
  proof -
    from i have pos: "0 < l * c" by (cases "l * c = 0") auto
    then have cpos: "0 < c" by simp
    have "i mod (l * c) < length rows * c"
      using pos by (simp add: rows(1))
    then have "concat rows ! (i mod (l * c)) = rows ! (i mod (l * c) div c) ! (i mod (l * c) mod c)"
      using rows(2) by (intro concat_nth_uniform)
    then have sig: "concat rows ! (i mod (l * c)) = rows ! (i div c mod l) ! (i mod c)"
      by (simp add: signal_index [OF cpos])
    have own: "bcast_index [b, l, c] [b, l, c] i = i"
      using i by (intro bcast_index_same) (simp add: n)
    show ?thesis
      unfolding own bcast_index_batch [OF i] sig by (rule refl)
  qed
  have data_eq:
    "map (\<lambda>i. fadd (data x ! bcast_index [b, l, c] [b, l, c] i)
                   (concat rows ! bcast_index [Suc 0, l, c] [b, l, c] i)) [0..<b * l * c]
     = map (\<lambda>i. fadd (data x ! i) (rows ! (i div c mod l) ! (i mod c))) [0..<b * l * c]"
  proof (rule map_cong [OF refl])
    fix i
    assume "i \<in> set [0..<b * l * c]"
    then have "i < b * l * c" by simp
    then show "fadd (data x ! bcast_index [b, l, c] [b, l, c] i)
                    (concat rows ! bcast_index [Suc 0, l, c] [b, l, c] i)
               = fadd (data x ! i) (rows ! (i div c mod l) ! (i mod c))"
      by (rule elem)
  qed
  have "tf_add x \<lparr>shape = [Suc 0, l, c], data = concat rows\<rparr> =
          Inr \<lparr>shape = [b, l, c],
               data = map (\<lambda>i. fadd (data x ! i) (rows ! (i div c mod l) ! (i mod c)))
                          [0..<b * l * c]\<rparr>"
    using tf_add_batch [OF x, of "\<lparr>shape = [Suc 0, l, c], data = concat rows\<rparr>" ]
    by (simp add: data_eq del: bcast_index.simps)
  then show ?thesis
    by (simp add: add_sinusoids_timing_signal_def x Inr signal_reshape)
qed


lemma log_ratio_default: "py_log_ratio 10000 1 = Inr (ln 10000)"
  by (simp add: py_log_ratio_def)

lemma signal_two_channels: "sinusoid_signal (positions (Suc 0)) 2 1 10000 = Inr [[NaN, NaN]]"
  by (simp add: sinusoid_signal_def log_ratio_default positions_def fsub_def signed_inf_def)

lemma signal_four_channels:
  "sinusoid_signal (positions (Suc 0)) 4 1 10000 = Inr [[Fin 0, Fin 0, Fin 1, Fin 1]]"
  by (simp add: sinusoid_signal_def log_ratio_default positions_def fsub_def upt_conv_Cons)

theorem add_sinusoids_same_signal_per_batch_witness:
  "shape two_batches = [2, 1, 4] \<and>
   add_sinusoids_timing_signal two_batches None 1 10000
     = Inr \<lparr>shape = [2, 1, 4],
            data = [Fin 0, Fin 0, Fin 1, Fin 1, Fin 10, Fin 10, Fin 11, Fin 11]\<rparr>"
  using add_sinusoids_same_signal_per_batch [of two_batches 2 1 4 None 1 10000]
  by (simp add: two_batches_def signal_four_channels upt_conv_Cons)

text \<open>
  The signal at position 0. When the number of timescales \<open>channels div 2\<close> is not 1,
  it is 0 on the sine half, 1 on the cosine half and 0 on the padding channel. When it
  is 1 (two or three channels), \<open>log_timescale_increment\<close> is a division by zero, and
  the sine and the cosine channel are NaN at every position.
\<close>

lemma sinusoid_signal_nan:
  assumes "c div 2 = 1" and "py_log_ratio mx mn = Inr lg"
  shows "sinusoid_signal position c mn mx
           = Inr (map (\<lambda>p. [NaN, NaN] @ replicate (c mod 2) (Fin 0)) position)"
proof -
  have "fmul (Fin 0) (fneg (signed_inf lg)) = NaN"
    by (simp add: signed_inf_def)
  then have inc: "fmul (Fin 0) (fneg (fdiv (Fin lg) (fsub (Fin 1) (Fin 1)))) = NaN"
    by (simp add: fsub_def)
  have p: "fmul p NaN = NaN" for p
    by (cases p) simp_all
  show ?thesis
    using assms by (simp add: sinusoid_signal_def inc p)
qed

lemma sinusoid_signal_position_zero:
  assumes "c div 2 \<noteq> 1" and "py_log_ratio mx mn = Inr lg"
  shows "sinusoid_signal [Fin 0] c mn mx
           = Inr [replicate (c div 2) (Fin 0) @ replicate (c div 2) (Fin 1)
                  @ replicate (c mod 2) (Fin 0)]"
proof -
  have ne: "real (c div 2) - 1 \<noteq> 0"
    using assms(1) by simp
  have inc: "fdiv (Fin lg) (fsub (Fin (real (c div 2))) (Fin 1))
               = Fin (lg / (real (c div 2) - 1))"
    using ne by (simp add: fsub_def)
  show ?thesis
    using assms(2) by (simp add: sinusoid_signal_def Let_def inc map_replicate_const comp_def)
qed

text \<open>
  Claim C7, at two channels: the signal added at position 0 is not \<open>[0, 1]\<close>. The call
  on an all-zero input of shape \<open>[1, 1, 2]\<close> with the default timescales returns NaN on
  both channels.
\<close>

theorem add_sinusoids_two_channels_nan:
  "add_sinusoids_timing_signal \<lparr>shape = [1, 1, 2], data = [Fin 0, Fin 0]\<rparr> None 1 10000
     = Inr \<lparr>shape = [1, 1, 2], data = [NaN, NaN]\<rparr>"
  by (simp add: add_sinusoids_timing_signal_def signal_two_channels tf_reshape_def
      tf_add_def tf_binop_def broadcast_shape_def pad_rank_def numel_def upt_conv_Cons)

end
